theory Spec2Isabelle
  imports Complex_Main "HOL-Library.Word"
begin

unbundle bit_operations_syntax

section \<open>The backend health poller (cache\_backend\_poll.c)\<close>

subsection \<open>Data model\<close>

text \<open>
  C \<open>unsigned\<close> is a 32-bit word, \<open>uint64_t\<close> a 64-bit word, \<open>int\<close> a
  mathematical integer (no arithmetic on an \<open>int\<close> of this file can overflow, apart from
  the byte counter \<open>rlen\<close>, which is \<open>unsigned\<close> and modelled as a word).
  A \<open>double\<close> is modelled by a real number: times and averages are carried around, added
  and compared, and no theorem below depends on how an IEEE double rounds.
\<close>

type_synonym u32 = "32 word"
type_synonym u64 = "64 word"
type_synonym double = real

text \<open>
  \<open>struct vrt_backend_probe\<close> (declared in vrt.h): the fields the poller reads.
  A \<open>NULL\<close> string pointer is \<open>None\<close>.
\<close>

record vrt_backend_probe =
  url :: "string option"
  request :: "string option"
  timeout :: double
  interval :: double
  exp_status :: u32
  window :: u32
  threshold :: u32
  initial :: u32

text \<open>
  \<open>struct backend\<close> (declared in cache\_backend.h): the poller writes \<open>healthy\<close> and
  \<open>health_changed\<close>, reads \<open>display_name\<close> and publishes the \<open>happy\<close> bitmap into
  the statistics block \<open>vsc\<close> when there is one (\<open>vsc_happy = None\<close> is \<open>vsc == NULL\<close>).
\<close>

record backend =
  display_name :: string
  healthy :: bool
  health_changed :: double
  vsc_happy :: "u64 option"

text \<open>
  Modelled from the spec: the table tbl/backend\_poll.h, whose rows the macro \<open>BITMAP\<close>
  expands into the history bitmaps of \<open>struct vbp_target\<close>, is not among the sources.
  Its rows are the bitmaps that the data model of the specification names and that vbp\_poke
  sets: \<open>good_ipv4\<close>, \<open>good_ipv6\<close>, \<open>err_xmit\<close>, \<open>good_xmit\<close>, \<open>err_recv\<close>,
  \<open>good_recv\<close>, \<open>happy\<close>.

  In \<open>struct vbp_target\<close> the pointer \<open>vt->backend\<close> is modelled by the record it points
  to (\<open>None\<close> is \<open>NULL\<close>): a write through the pointer updates the embedded record.
  The TCP pool, the task and the heap index are left out.
\<close>

record vbp_target =
  backend :: "backend option"
  probe :: vrt_backend_probe
  req :: string
  req_len :: int
  resp_buf :: string
  good :: u32
  good_ipv4 :: u64
  good_ipv6 :: u64
  err_xmit :: u64
  good_xmit :: u64
  err_recv :: u64
  good_recv :: u64
  happy :: u64
  last :: double
  avg :: double
  rate :: double
  due :: double
  running :: int

definition AVG_RATE :: double where
  "AVG_RATE = 4"

definition NUL :: char where
  "NUL = CHR 0x00"

subsection \<open>Record pokings: vbp\_start\_poke and vbp\_has\_poked\<close>

text \<open>\<open>resp_buf[0] = '\0'\<close> on the 128-byte array.\<close>

definition vbp_start_poke :: "vbp_target \<Rightarrow> vbp_target" where
  "vbp_start_poke vt = vt
     \<lparr> good_ipv4 := push_bit 1 (good_ipv4 vt),
       good_ipv6 := push_bit 1 (good_ipv6 vt),
       err_xmit := push_bit 1 (err_xmit vt),
       good_xmit := push_bit 1 (good_xmit vt),
       err_recv := push_bit 1 (err_recv vt),
       good_recv := push_bit 1 (good_recv vt),
       happy := push_bit 1 (happy vt),
       last := 0,
       resp_buf := (resp_buf vt)[0 := NUL] \<rparr>"

text \<open>
  The counting loop of vbp\_has\_poked,
  \<^verbatim>\<open>for (i = j = 0; i < vt->probe.window; i++) { if (u & 1) j++; u >>= 1; }\<close>,
  by recursion on the number of iterations left.
\<close>

fun count_loop :: "nat \<Rightarrow> u64 \<Rightarrow> u32 \<Rightarrow> u32" where
  "count_loop 0 u j = j"
| "count_loop (Suc n) u j = count_loop n (drop_bit 1 u) (if u AND 1 \<noteq> 0 then j + 1 else j)"

text \<open>The exponential average, updated when the newest probe was happy.\<close>

definition vbp_avg_update :: "vbp_target \<Rightarrow> vbp_target" where
  "vbp_avg_update vt =
     (if happy vt AND 1 \<noteq> 0 then
        (let r = (if rate vt < AVG_RATE then rate vt + 1 else rate vt)
         in vt \<lparr> rate := r, avg := avg vt + (last vt - avg vt) / r \<rparr>)
      else vt)"

text \<open>
  The two-state health machine, run under the mutex when a backend is attached.
  \<open>now\<close> is what \<open>VTIM_real()\<close> returns at this call; \<open>g\<close> is \<open>vt->good\<close>,
  \<open>t\<close> is \<open>vt->probe.threshold\<close>, \<open>h\<close> is \<open>vt->happy\<close>.
\<close>

definition vbp_health :: "double \<Rightarrow> u32 \<Rightarrow> u32 \<Rightarrow> u64 \<Rightarrow> backend \<Rightarrow> backend" where
  "vbp_health now g t h b =
     (let b1 =
        (if t \<le> g then
           (if healthy b then b else b \<lparr> health_changed := now \<rparr>) \<lparr> healthy := True \<rparr>
         else
           (if healthy b then b \<lparr> health_changed := now \<rparr> else b) \<lparr> healthy := False \<rparr>)
      in (case vsc_happy b1 of None \<Rightarrow> b1 | Some _ \<Rightarrow> b1 \<lparr> vsc_happy := Some h \<rparr>))"

text \<open>
  The label of the log record \<open>SLT_Backend_health\<close>. The record and the character summary
  \<open>bits\<close> go to the log only and are not part of the state.
\<close>

definition vbp_logmsg :: "u32 \<Rightarrow> u32 \<Rightarrow> backend \<Rightarrow> string" where
  "vbp_logmsg g t b =
     (if t \<le> g then (if healthy b then ''Still healthy'' else ''Back healthy'')
      else (if healthy b then ''Went sick'' else ''Still sick''))"

definition vbp_has_poked :: "double \<Rightarrow> vbp_target \<Rightarrow> vbp_target" where
  "vbp_has_poked now vt =
     (let vt1 = vbp_avg_update vt;
          vt2 = vt1 \<lparr> good := count_loop (unat (window (probe vt1))) (happy vt1) 0 \<rparr>
      in (case backend vt2 of
            None \<Rightarrow> vt2
          | Some b \<Rightarrow>
              vt2 \<lparr> backend := Some (vbp_health now (good vt2) (threshold (probe vt2)) (happy vt2) b) \<rparr>))"

subsection \<open>Sanitize and set defaults: vbp\_set\_defaults\<close>

definition vbp_set_defaults :: "vrt_backend_probe \<Rightarrow> vrt_backend_probe" where
  "vbp_set_defaults p0 =
     (let p1 = p0 \<lparr> timeout := (if timeout p0 = 0 then 2 else timeout p0) \<rparr>;
          p2 = p1 \<lparr> interval := (if interval p1 = 0 then 5 else interval p1) \<rparr>;
          p3 = p2 \<lparr> window := (if window p2 = 0 then 8 else window p2) \<rparr>;
          p4 = p3 \<lparr> threshold := (if threshold p3 = 0 then 3 else threshold p3) \<rparr>;
          p5 = p4 \<lparr> exp_status := (if exp_status p4 = 0 then 200 else exp_status p4) \<rparr>;
          p6 = p5 \<lparr> initial := (if initial p5 = NOT 0 then threshold p5 - 1 else initial p5) \<rparr>
      in p6 \<lparr> initial := (if threshold p6 < initial p6 then threshold p6 else initial p6) \<rparr>)"

subsection \<open>Build request from probe spec: vbp\_build\_req\<close>

definition CR :: char where
  "CR = CHR 0x0D"

definition LF :: char where
  "LF = CHR 0x0A"

definition vbp_build_req :: "string option \<Rightarrow> vbp_target \<Rightarrow> vbp_target" where
  "vbp_build_req hosthdr vt =
     (let r = (case request (probe vt) of
                 Some q \<Rightarrow> q
               | None \<Rightarrow>
                   ''GET '' @ (case url (probe vt) of Some u \<Rightarrow> u | None \<Rightarrow> ''/'')
                     @ '' HTTP/1.1'' @ [CR, LF]
                   @ (case hosthdr of Some h \<Rightarrow> ''Host: '' @ h @ [CR, LF] | None \<Rightarrow> [])
                   @ ''Connection: close'' @ [CR, LF]
                   @ [CR, LF])
      in vt \<lparr> req := r, req_len := int (length r) \<rparr>)"

subsection \<open>Insert: VBP\_Insert\<close>

text \<open>
  \<open>ALLOC_OBJ\<close> hands out a zero-filled object: every bitmap, counter and double is 0,
  every pointer is \<open>NULL\<close> and the response buffer holds 128 NUL bytes.
\<close>

definition probe_zero :: vrt_backend_probe where
  "probe_zero = \<lparr> url = None, request = None, timeout = 0, interval = 0,
      exp_status = 0, window = 0, threshold = 0, initial = 0 \<rparr>"

definition vbp_target_zero :: vbp_target where
  "vbp_target_zero = \<lparr> backend = None, probe = probe_zero, req = [], req_len = 0,
      resp_buf = replicate 128 NUL, good = 0, good_ipv4 = 0, good_ipv6 = 0, err_xmit = 0,
      good_xmit = 0, err_recv = 0, good_recv = 0, happy = 0, last = 0, avg = 0, rate = 0,
      due = 0, running = 0 \<rparr>"

text \<open>
  The body of the seeding loop of VBP\_Insert, for the loop counter \<open>u\<close>:
  \<^verbatim>\<open>if (u) vbp_has_poked(vt); vbp_start_poke(vt); vt->happy |= 1; vbp_has_poked(vt);\<close>
  The clock \<open>clk\<close> gives what \<open>VTIM_real()\<close> returns at each call of vbp\_has\_poked:
  the two calls of iteration \<open>u\<close> read \<open>clk (2 * u)\<close> and \<open>clk (2 * u + 1)\<close>.
\<close>

definition seed_body :: "(nat \<Rightarrow> double) \<Rightarrow> nat \<Rightarrow> vbp_target \<Rightarrow> vbp_target" where
  "seed_body clk u vt =
     (let vt1 = (if u \<noteq> 0 then vbp_has_poked (clk (2 * u)) vt else vt);
          vt2 = vbp_start_poke vt1;
          vt3 = vt2 \<lparr> happy := happy vt2 OR 1 \<rparr>
      in vbp_has_poked (clk (2 * u + 1)) vt3)"

text \<open>\<^verbatim>\<open>for (u = 0; u < vt->probe.initial; u++)\<close>, with \<open>n\<close> the value of \<open>initial\<close>.\<close>

definition seed_loop :: "(nat \<Rightarrow> double) \<Rightarrow> nat \<Rightarrow> vbp_target \<Rightarrow> vbp_target" where
  "seed_loop clk n vt = fold (seed_body clk) [0..<n] vt"

text \<open>
  VBP\_Insert returns the new target, which holds the backend as vbp\_has\_poked left it.
  The reference to the TCP pool and the pointer \<open>b->probe\<close> back to the target are not
  modelled.
\<close>

definition VBP_Insert ::
  "(nat \<Rightarrow> double) \<Rightarrow> backend \<Rightarrow> vrt_backend_probe \<Rightarrow> string option \<Rightarrow> vbp_target" where
  "VBP_Insert clk b p hosthdr =
     (let vt0 = vbp_target_zero \<lparr> probe := p, backend := Some b \<rparr>;
          vt1 = vt0 \<lparr> probe := vbp_set_defaults (probe vt0) \<rparr>;
          vt2 = vbp_build_req hosthdr vt1;
          n = unat (initial (probe vt2));
          vt3 = seed_loop clk n vt2
      in vbp_has_poked (clk (2 * n)) vt3)"

subsection \<open>Poke one backend, once: vbp\_poke\<close>

text \<open>
  What the world does during one probe is an input of the model:
  \<^item> \<open>vbt_open\<close>: \<open>None\<close> when \<open>VBT_Open\<close> returns no socket, else the protocol family
    \<open>VSA_Get_Proto\<close> reports for the peer;
  \<^item> \<open>t_start\<close>, \<open>t_conn\<close>, \<open>t_recv\<close>: the three readings of \<open>VTIM_real()\<close>;
  \<^item> \<open>write_res\<close>: what \<open>write\<close> returns;
  \<^item> \<open>events\<close>: one entry per iteration of the read loop: \<open>poll\<close> returns 0, or it
    returns non-zero and \<open>read\<close> fails with -1, or \<open>read\<close> finds \<open>n\<close> bytes ready
    (it returns at most the count it was called with and at most what is left of
    \<open>peer_data\<close>, and 0 at the end of the data); after the last entry nothing more
    arrives and \<open>poll\<close> returns 0;
  \<^item> \<open>peer_data\<close>: the bytes the peer sends.
\<close>

datatype vsa_proto = AF_INET | AF_INET6 | AF_UNSPEC

datatype rd_event = Poll_timeout | Read_error | Read_avail nat

record probe_env =
  vbt_open :: "vsa_proto option"
  t_start :: double
  t_conn :: double
  t_recv :: double
  write_res :: int
  events :: "rd_event list"
  peer_data :: string

text \<open>C's \<open>round\<close> (halfway cases away from zero), then the conversion to \<open>int\<close>.\<close>

definition c_round :: "double \<Rightarrow> int" where
  "c_round x = (if 0 \<le> x then \<lfloor>x + 1 / 2\<rfloor> else \<lceil>x - 1 / 2\<rceil>)"

text \<open>
  \<open>read(s, buf + off, ...)\<close> storing the bytes \<open>xs\<close>: a list that came out longer than the
  array would be a write past its end.
\<close>

definition buf_write :: "string \<Rightarrow> nat \<Rightarrow> string \<Rightarrow> string" where
  "buf_write b off xs = take off b @ xs @ drop (off + length xs) b"

text \<open>
  The read loop. \<open>rlen\<close> is \<open>unsigned\<close>; \<open>rlen += i\<close> with \<open>i = -1\<close> wraps.
  The result is how the loop ended: by the \<open>return\<close> inside it, or by \<open>i <= 0\<close>
  with the last \<open>i\<close>, \<open>rlen\<close> and the response buffer.
\<close>

datatype rd_result = Rd_timeout string | Rd_done int u32 string

fun vbp_read_loop :: "int \<Rightarrow> rd_event list \<Rightarrow> string \<Rightarrow> u32 \<Rightarrow> string \<Rightarrow> rd_result" where
  "vbp_read_loop tmo [] data rlen buf = Rd_timeout buf"
| "vbp_read_loop tmo (e # es) data rlen buf =
     (if tmo \<le> 0 then Rd_timeout buf
      else case e of
        Poll_timeout \<Rightarrow> Rd_timeout buf
      | Read_error \<Rightarrow> Rd_done (- 1) (rlen - 1) buf
      | Read_avail n \<Rightarrow>
          (let into_resp = (rlen < 128);
               cnt = (if into_resp then 128 - unat rlen else 8192);
               got = take (min n cnt) data
           in if got = [] then Rd_done 0 rlen buf
              else vbp_read_loop tmo es (drop (length got) data) (rlen + of_nat (length got))
                     (if into_resp then buf_write buf (unat rlen) got else buf)))"

text \<open>The response buffer as the read loop left it.\<close>

definition rd_buf :: "rd_result \<Rightarrow> string" where
  "rd_buf r = (case r of Rd_timeout b \<Rightarrow> b | Rd_done i rlen b \<Rightarrow> b)"

text \<open>
  \<open>strchr\<close> on the array: the index of the first \<open>c\<close> before the terminating NUL. A scan
  that runs off the array finds nothing.
\<close>

fun strchr :: "string \<Rightarrow> char \<Rightarrow> nat option" where
  "strchr [] c = None"
| "strchr (x # xs) c =
     (if x = c then Some 0 else if x = NUL then None else map_option Suc (strchr xs c))"

text \<open>\<^verbatim>\<open>p = strchr(b, c); if (p != NULL) *p = '\0';\<close>\<close>

definition cut_at :: "char \<Rightarrow> string \<Rightarrow> string" where
  "cut_at c b = (case strchr b c of None \<Rightarrow> b | Some k \<Rightarrow> b[k := NUL])"

text \<open>The three stores into the response buffer that precede \<open>sscanf\<close>.\<close>

definition vbp_cut_line :: "string \<Rightarrow> string" where
  "vbp_cut_line b = cut_at LF (cut_at CR (b[127 := NUL]))"

text \<open>The C string an array holds: the bytes before the first NUL.\<close>

definition c_str :: "string \<Rightarrow> string" where
  "c_str b = takeWhile (\<lambda>c. c \<noteq> NUL) b"

text \<open>
  Which \<open>return\<close> of vbp\_poke was taken; \<open>Wrong_proto\<close> is the \<open>WRONG(...)\<close> that aborts
  the process.
\<close>

datatype poke_exit =
  No_connection | Wrong_proto | Late | Xmit_fail | Recv_timeout | Recv_error | Recv_empty
  | Parsed

record poke_result =
  tgt :: vbp_target
  exit_at :: poke_exit
  sock_open :: bool

text \<open>
  \<open>scan\<close> stands for \<^verbatim>\<open>sscanf(vt->resp_buf, "HTTP/%*f %u %s", &resp, buf)\<close> of the C
  library: from the string it returns the count \<open>i\<close> and the value stored in \<open>resp\<close>
  (read only when \<open>i\<close> is 1 or 2).
\<close>

definition vbp_poke :: "(string \<Rightarrow> int \<times> u32) \<Rightarrow> probe_env \<Rightarrow> vbp_target \<Rightarrow> poke_result" where
  "vbp_poke scan env vt =
     (let t_end = t_start env + timeout (probe vt) in
      case vbt_open env of
        None \<Rightarrow> \<lparr> tgt = vt, exit_at = No_connection, sock_open = False \<rparr>
      | Some fam \<Rightarrow>
          if fam = AF_UNSPEC then \<lparr> tgt = vt, exit_at = Wrong_proto, sock_open = True \<rparr>
          else
            let vt1 = (if fam = AF_INET then vt \<lparr> good_ipv4 := good_ipv4 vt OR 1 \<rparr>
                       else vt \<lparr> good_ipv6 := good_ipv6 vt OR 1 \<rparr>);
                tmo = c_round ((t_end - t_conn env) * 1000)
            in
              if tmo \<le> 0 then \<lparr> tgt = vt1, exit_at = Late, sock_open = False \<rparr>
              else if write_res env \<noteq> req_len vt1 then
                \<lparr> tgt = (if write_res env < 0 then vt1 \<lparr> err_xmit := err_xmit vt1 OR 1 \<rparr>
                         else vt1),
                  exit_at = Xmit_fail, sock_open = False \<rparr>
              else
                let vt2 = vt1 \<lparr> good_xmit := good_xmit vt1 OR 1 \<rparr> in
                (case vbp_read_loop tmo (events env) (peer_data env) 0 (resp_buf vt2) of
                  Rd_timeout b \<Rightarrow>
                    \<lparr> tgt = vt2 \<lparr> resp_buf := b \<rparr>, exit_at = Recv_timeout, sock_open = False \<rparr>
                | Rd_done i rlen b \<Rightarrow>
                    if i < 0 then
                      \<lparr> tgt = vt2 \<lparr> resp_buf := b, err_recv := err_recv vt2 OR 1 \<rparr>,
                        exit_at = Recv_error, sock_open = False \<rparr>
                    else if rlen = 0 then
                      \<lparr> tgt = vt2 \<lparr> resp_buf := b \<rparr>, exit_at = Recv_empty, sock_open = False \<rparr>
                    else
                      let vt3 = vt2 \<lparr> resp_buf := vbp_cut_line b,
                                      last := t_recv env - t_start env,
                                      good_recv := good_recv vt2 OR 1 \<rparr>;
                          r = scan (c_str (resp_buf vt3))
                      in \<lparr> tgt = (if (fst r = 1 \<or> fst r = 2) \<and> snd r = exp_status (probe vt3)
                                  then vt3 \<lparr> happy := happy vt3 OR 1 \<rparr> else vt3),
                           exit_at = Parsed, sock_open = False \<rparr>))"

text \<open>The task body up to the final lock: \<open>vbp_start_poke\<close>, \<open>vbp_poke\<close>, \<open>vbp_has_poked\<close>.\<close>

definition vbp_task :: "(string \<Rightarrow> int \<times> u32) \<Rightarrow> probe_env \<Rightarrow> double \<Rightarrow> vbp_target \<Rightarrow> vbp_target" where
  "vbp_task scan env now vt = vbp_has_poked now (tgt (vbp_poke scan env (vbp_start_poke vt)))"

subsection \<open>The dispatcher: vbp\_thread\<close>







subsection \<open>What the specification calls popcount and the response line\<close>

text \<open>The number of one-bits of a 64-bit word.\<close>

definition popcount :: "u64 \<Rightarrow> nat" where
  "popcount w = length (filter (bit w) [0..<64])"

text \<open>
  The response line as the specification describes it: the content of the 128-byte buffer
  up to the first CR or LF, NUL-terminated (the last byte of the buffer is given up for the
  terminator).
\<close>

definition status_line :: "string \<Rightarrow> string" where
  "status_line b = takeWhile (\<lambda>c. c \<noteq> CR \<and> c \<noteq> LF \<and> c \<noteq> NUL) (take 127 b)"

section \<open>Inputs for the examples\<close>

text \<open>
  An executable reading of \<^verbatim>\<open>sscanf(s, "HTTP/%*f %u %s", &resp, buf)\<close>, used to run
  vbp\_poke on the examples below; every general theorem about vbp\_poke is stated for an
  arbitrary scanner. It follows the C standard for a version written with decimal digits and
  an optional fraction (no exponent, infinity, NaN or hexadecimal form) and a status that
  fits 32 bits: the literal \<open>HTTP/\<close>, the skipped number, white space, an optionally signed
  decimal number, white space and a word. The result is the count of assignments (\<open>-1\<close>
  for the end of the input before the number) and the value of \<open>resp\<close>.
\<close>

definition is_space :: "char \<Rightarrow> bool" where
  "is_space c = (c = CHR '' '' \<or> c = CHR 0x09 \<or> c = LF \<or> c = CHR 0x0B \<or> c = CHR 0x0C \<or> c = CR)"

definition is_digit :: "char \<Rightarrow> bool" where
  "is_digit c = (48 \<le> (of_char c :: nat) \<and> (of_char c :: nat) \<le> 57)"

definition dec_val :: "string \<Rightarrow> nat" where
  "dec_val ds = foldl (\<lambda>a c. 10 * a + (of_char c - 48)) 0 ds"

definition is_sign :: "string \<Rightarrow> bool" where
  "is_sign s = (case s of [] \<Rightarrow> False | c # _ \<Rightarrow> c = CHR ''+'' \<or> c = CHR ''-'')"

definition sscanf_http :: "string \<Rightarrow> int \<times> u32" where
  "sscanf_http s =
     (if take 5 s \<noteq> ''HTTP/'' then (if s = take (length s) ''HTTP/'' then (- 1, 0) else (0, 0))
      else
        let s1 = dropWhile is_space (drop 5 s) in
        if s1 = [] then (- 1, 0)
        else
          let s2 = (if is_sign s1 then tl s1 else s1);
              ip = takeWhile is_digit s2;
              s3 = dropWhile is_digit s2;
              dot = (take 1 s3 = ''.'');
              fp = (if dot then takeWhile is_digit (tl s3) else []);
              s4 = (if dot then dropWhile is_digit (tl s3) else s3)
          in
            if ip = [] \<and> fp = [] then (0, 0)
            else
              let s5 = dropWhile is_space s4;
                  s6 = (if is_sign s5 then tl s5 else s5);
                  ds = takeWhile is_digit s6;
                  v = (of_nat (dec_val ds) :: u32);
                  s7 = dropWhile is_space (dropWhile is_digit s6)
              in
                if ds = [] then (0, 0)
                else (if s7 = [] then 1 else 2, if take 1 s5 = ''-'' then - v else v))"

text \<open>A backend that is sick and was never stamped, and a clock that stands at 0.\<close>

definition backend_zero :: backend where
  "backend_zero = \<lparr> display_name = ''b'', healthy = False, health_changed = 0, vsc_happy = None \<rparr>"

definition clock_zero :: "nat \<Rightarrow> double" where
  "clock_zero k = 0"

text \<open>A target with window 3, threshold 2 and the history \<open>1011\<close>, attached to a sick backend.\<close>

definition target_w3 :: vbp_target where
  "target_w3 = vbp_target_zero
     \<lparr> backend := Some backend_zero,
       probe := probe_zero \<lparr> window := 3, threshold := 2 \<rparr>,
       happy := 11 \<rparr>"

text \<open>A probe spec with window 2 and threshold 5.\<close>

definition probe_w2_t5 :: vrt_backend_probe where
  "probe_w2_t5 = probe_zero \<lparr> window := 2, threshold := 5, initial := 7 \<rparr>"

text \<open>A fresh target with the default probe and the request built from it (37 bytes).\<close>

definition target_default :: vbp_target where
  "target_default = vbp_build_req None (vbp_target_zero \<lparr> probe := vbp_set_defaults probe_zero \<rparr>)"

text \<open>A probe whose \<open>write\<close> transfers 3 bytes.\<close>

definition env_short_write :: probe_env where
  "env_short_write = \<lparr> vbt_open = Some AF_INET, t_start = 0, t_conn = 0, t_recv = 0,
      write_res = 3, events = [], peer_data = [] \<rparr>"


text \<open>A probe spec with threshold 65 and initial 65.\<close>

definition probe_t65 :: vrt_backend_probe where
  "probe_t65 = probe_zero \<lparr> window := 64, threshold := 65, initial := 65 \<rparr>"

text \<open>A probe spec with window 2, threshold 3 and initial 3.\<close>

definition probe_w2_t3 :: vrt_backend_probe where
  "probe_w2_t3 = probe_zero \<lparr> window := 2, threshold := 3, initial := 3 \<rparr>"

text \<open>A probe spec with the default window 8, threshold 3 and initial 3.\<close>

definition probe_t3_i3 :: vrt_backend_probe where
  "probe_t3_i3 = probe_zero \<lparr> threshold := 3, initial := 3 \<rparr>"

text \<open>A peer that answers \<open>HTTP/1.1 200 OK\<close> and an empty header, then closes.\<close>

definition env_200 :: probe_env where
  "env_200 = \<lparr> vbt_open = Some AF_INET, t_start = 0, t_conn = 0, t_recv = 1 / 100,
      write_res = 37, events = [Read_avail 1460, Read_avail 1460],
      peer_data = ''HTTP/1.1 200 OK'' @ [CR, LF, CR, LF] \<rparr>"

text \<open>A peer that sends the single byte \<open>H\<close>, then closes.\<close>

definition env_H :: probe_env where
  "env_H = \<lparr> vbt_open = Some AF_INET, t_start = 0, t_conn = 0, t_recv = 1 / 100,
      write_res = 37, events = [Read_avail 1460, Read_avail 1460],
      peer_data = ''H'' \<rparr>"

text \<open>A response of 128 bytes: a status line with status 500 and padding.\<close>

definition resp_128 :: string where
  "resp_128 = ''HTTP/1.1 500 Err'' @ [CR, LF] @ replicate 110 (CHR ''x'')"

text \<open>A peer that sends these 128 bytes, then closes.\<close>

definition env_128 :: probe_env where
  "env_128 = \<lparr> vbt_open = Some AF_INET, t_start = 0, t_conn = 0, t_recv = 1 / 100,
      write_res = 37, events = [Read_avail 128, Read_avail 128],
      peer_data = resp_128 \<rparr>"

text \<open>
  A peer that sends the same 128 bytes, padding up to \<open>2 ^ 32\<close> bytes in all, and then
  \<open>HTTP/1.1 200 OK\<close>; the reads return 128 bytes, 524287 times 8192 bytes, 8064 bytes and
  the last 17 bytes.
\<close>

definition env_4G :: probe_env where
  "env_4G = \<lparr> vbt_open = Some AF_INET, t_start = 0, t_conn = 0, t_recv = 1 / 100,
      write_res = 37,
      events = Read_avail 128 # replicate 524287 (Read_avail 8192)
                 @ [Read_avail 8064, Read_avail 128, Read_avail 128],
      peer_data = resp_128 @ replicate (8192 * 524287) (CHR ''x'') @ replicate 8064 (CHR ''x'')
                    @ ''HTTP/1.1 200 OK'' @ [CR, LF] \<rparr>"

text \<open>A response of 128 bytes: a status line with status 200 and padding.\<close>

definition resp_ok_128 :: string where
  "resp_ok_128 = ''HTTP/1.1 200 OK'' @ [CR, LF] @ replicate 111 (CHR ''x'')"

text \<open>
  A peer that sends these 128 bytes and padding up to exactly \<open>2 ^ 32\<close> bytes, then closes;
  the reads return 128 bytes, 524287 times 8192 bytes and 8064 bytes.
\<close>

definition env_4G_ok :: probe_env where
  "env_4G_ok = \<lparr> vbt_open = Some AF_INET, t_start = 0, t_conn = 0, t_recv = 1 / 100,
      write_res = 37,
      events = Read_avail 128 # replicate 524287 (Read_avail 8192)
                 @ [Read_avail 8064, Read_avail 128],
      peer_data = resp_ok_128 @ replicate (8192 * 524287) (CHR ''x'')
                    @ replicate 8064 (CHR ''x'') \<rparr>"

section \<open>Properties\<close>

subsection \<open>Counting bits\<close>

lemma and1_bit0: "(u AND 1 \<noteq> 0) = bit (u::u64) 0"
  by (simp add: and_one_eq bit_0 mod_2_eq_odd)

lemma popcount_card: "popcount w = card {i. bit w i}"
proof -
  have "{i. bit w i} = set (filter (bit w) [0..<64])"
    using bit_imp_le_length [of w] by auto
  moreover have "distinct (filter (bit w) [0..<64])"
    by simp
  ultimately have "card {i. bit w i} = length (filter (bit w) [0..<64])"
    by (simp only: distinct_card)
  then show ?thesis
    unfolding popcount_def by simp
qed

lemma popcount_le: "popcount w \<le> 64"
  unfolding popcount_def by (metis length_filter_le length_upt diff_zero)

lemma popcount_take_bit: "popcount (take_bit n (h::u64)) = card {i. i < n \<and> bit h i}"
  by (simp add: popcount_card bit_take_bit_iff)

lemma low_mask: "(h::u64) AND (push_bit n 1 - 1) = take_bit n h"
  by (simp add: push_bit_eq_mult flip: mask_eq_exp_minus_1 take_bit_eq_mask)

lemma card_low_Suc:
  "card {i. i < Suc n \<and> bit (u::u64) i} =
     (if bit u 0 then 1 else 0) + card {i. i < n \<and> bit (drop_bit 1 u) i}"
proof -
  let ?A = "{i. i < n \<and> bit (drop_bit 1 u) i}"
  have img: "Suc ` ?A = {i. 0 < i \<and> i < Suc n \<and> bit u i}"
  proof (intro set_eqI iffI)
    fix x assume "x \<in> Suc ` ?A"
    then show "x \<in> {i. 0 < i \<and> i < Suc n \<and> bit u i}"
      by (auto simp: bit_drop_bit_eq)
  next
    fix x assume "x \<in> {i. 0 < i \<and> i < Suc n \<and> bit u i}"
    then obtain y where "x = Suc y" "y < n" "bit u (Suc y)"
      by (cases x) auto
    then show "x \<in> Suc ` ?A"
      by (auto simp: bit_drop_bit_eq)
  qed
  have split: "{i. i < Suc n \<and> bit u i} = (if bit u 0 then {0} else {}) \<union> Suc ` ?A"
    unfolding img by (auto intro: gr0I)
  have "card (Suc ` ?A) = card ?A"
    by (simp add: card_image)
  moreover have "(if bit u 0 then {0} else {}) \<inter> Suc ` ?A = {}"
    by auto
  ultimately show ?thesis
    unfolding split by (subst card_Un_disjoint) auto
qed

lemma count_loop_card:
  "count_loop n u j = j + of_nat (card {i. i < n \<and> bit u i})"
proof (induction n arbitrary: u j)
  case 0
  show ?case by simp
next
  case (Suc n)
  show ?case
    unfolding count_loop.simps Suc.IH card_low_Suc and1_bit0 by simp
qed

subsection \<open>What vbp\_has\_poked leaves alone, and what it computes\<close>

lemma avg_update_happy [simp]: "happy (vbp_avg_update vt) = happy vt"
  by (simp add: vbp_avg_update_def Let_def)

lemma avg_update_probe [simp]: "probe (vbp_avg_update vt) = probe vt"
  by (simp add: vbp_avg_update_def Let_def)

lemma avg_update_backend [simp]: "backend (vbp_avg_update vt) = backend vt"
  by (simp add: vbp_avg_update_def Let_def)

lemma has_poked_happy [simp]: "happy (vbp_has_poked now vt) = happy vt"
  by (simp add: vbp_has_poked_def Let_def split: option.split)

lemma has_poked_probe [simp]: "probe (vbp_has_poked now vt) = probe vt"
  by (simp add: vbp_has_poked_def Let_def split: option.split)

lemma has_poked_good:
  "good (vbp_has_poked now vt) = count_loop (unat (window (probe vt))) (happy vt) 0"
  by (simp add: vbp_has_poked_def Let_def split: option.split)

lemma has_poked_backend:
  "backend (vbp_has_poked now vt) =
     map_option (vbp_health now (good (vbp_has_poked now vt)) (threshold (probe vt)) (happy vt))
       (backend vt)"
  by (simp add: vbp_has_poked_def Let_def split: option.split)

lemma unat_good:
  "unat (good (vbp_has_poked now vt)) = popcount (take_bit (unat (window (probe vt))) (happy vt))"
proof -
  let ?c = "popcount (take_bit (unat (window (probe vt))) (happy vt))"
  have "?c \<le> 64"
    by (rule popcount_le)
  then have "unat (word_of_nat ?c :: u32) = ?c"
    by (simp add: unat_of_nat)
  then show ?thesis
    by (simp add: has_poked_good count_loop_card popcount_take_bit)
qed

lemma health_healthy: "healthy (vbp_health now g t h b) = (t \<le> g)"
  by (simp add: vbp_health_def Let_def split: option.split)

lemma health_changed_stamp:
  "health_changed (vbp_health now g t h b) =
     (if healthy b = (t \<le> g) then health_changed b else now)"
  by (simp add: vbp_health_def Let_def split: option.split)

text \<open>
  C1. After a call of vbp\_has\_poked on a target whose window lies in [1,64], \<open>good\<close>
  is the number of one-bits of \<open>happy & ((1 << window) - 1)\<close>.
\<close>

theorem good_is_popcount_of_window:
  assumes "1 \<le> unat (window (probe vt))" and "unat (window (probe vt)) \<le> 64"
  shows "unat (good (vbp_has_poked now vt)) =
           popcount (happy (vbp_has_poked now vt)
                       AND (push_bit (unat (window (probe (vbp_has_poked now vt)))) 1 - 1))"
  by (simp only: has_poked_happy has_poked_probe low_mask unat_good)

theorem good_is_popcount_of_window_witness:
  "unat (good (vbp_has_poked 0 target_w3)) = 2"
  using good_is_popcount_of_window [of target_w3 0]
  by (simp add: target_w3_def vbp_target_zero_def probe_zero_def popcount_def upt_rec)

text \<open>
  C2. With a backend attached, vbp\_has\_poked leaves \<open>healthy\<close> true exactly when
  \<open>good >= threshold\<close>, and \<open>health_changed\<close> is the current time when \<open>healthy\<close>
  changed its value and is left as it was otherwise.
\<close>

theorem has_poked_health_machine:
  assumes "backend vt = Some b"
  shows "\<exists>b'. backend (vbp_has_poked now vt) = Some b'
           \<and> healthy b' = (threshold (probe vt) \<le> good (vbp_has_poked now vt))
           \<and> health_changed b' = (if healthy b' = healthy b then health_changed b else now)"
  using assms by (auto simp: has_poked_backend health_healthy health_changed_stamp)

theorem has_poked_health_machine_witness:
  "map_option healthy (backend (vbp_has_poked 7 target_w3)) = Some True
     \<and> map_option health_changed (backend (vbp_has_poked 7 target_w3)) = Some 7"
proof -
  have b: "backend target_w3 = Some backend_zero"
    by (simp add: target_w3_def)
  have "count_loop 3 11 0 = 2"
    by (simp add: numeral_3_eq_3)
  then have g: "good (vbp_has_poked 7 target_w3) = 2"
    by (simp add: has_poked_good target_w3_def vbp_target_zero_def probe_zero_def)
  have t: "threshold (probe target_w3) = 2"
    by (simp add: target_w3_def)
  from has_poked_health_machine [OF b, of 7] show ?thesis
    by (auto simp: g t backend_zero_def)
qed

subsection \<open>Defaults\<close>

lemma word_pred_le: "t \<noteq> 0 \<Longrightarrow> t - 1 \<le> (t::u32)"
  by (simp add: word_le_nat_alt unat_minus_one)

lemma one_le_word: "t \<noteq> 0 \<Longrightarrow> 1 \<le> (t::u32)"
  by (simp add: word_le_nat_alt unat_gt_0 Suc_leI)

lemma set_defaults_threshold:
  "threshold (vbp_set_defaults p) = (if threshold p = 0 then 3 else threshold p)"
  by (simp add: vbp_set_defaults_def Let_def)

lemma set_defaults_window:
  "window (vbp_set_defaults p) = (if window p = 0 then 8 else window p)"
  by (simp add: vbp_set_defaults_def Let_def)

lemma set_defaults_initial:
  "initial (vbp_set_defaults p) =
     (let t = threshold (vbp_set_defaults p);
          i = (if initial p = NOT 0 then t - 1 else initial p)
      in if t < i then t else i)"
  by (simp add: vbp_set_defaults_def Let_def)

lemma set_defaults_initial_le: "initial (vbp_set_defaults p) \<le> threshold (vbp_set_defaults p)"
  unfolding set_defaults_initial Let_def
  by (auto simp: set_defaults_threshold word_pred_le not_less)

lemma set_defaults_threshold_pos: "1 \<le> threshold (vbp_set_defaults p)"
  by (simp add: set_defaults_threshold one_le_word)

text \<open>
  C3, as the code has it. After vbp\_set\_defaults, \<open>initial <= threshold\<close>,
  \<open>1 <= threshold\<close> and \<open>1 <= window\<close>. Window and threshold are defaulted when they are 0
  and otherwise kept as they are: nothing compares the threshold with the window.
\<close>

theorem set_defaults_sanitized:
  "initial (vbp_set_defaults p) \<le> threshold (vbp_set_defaults p)
     \<and> 1 \<le> threshold (vbp_set_defaults p)
     \<and> 1 \<le> window (vbp_set_defaults p)
     \<and> threshold (vbp_set_defaults p) = (if threshold p = 0 then 3 else threshold p)
     \<and> window (vbp_set_defaults p) = (if window p = 0 then 8 else window p)"
  by (simp add: set_defaults_initial_le set_defaults_threshold_pos set_defaults_window one_le_word
        set_defaults_threshold [symmetric])

text \<open>A threshold of 5 over a window of 2 passes through the defaults unchanged.\<close>

theorem set_defaults_threshold_above_window:
  "\<not> (threshold (vbp_set_defaults probe_w2_t5) \<le> window (vbp_set_defaults probe_w2_t5)
        \<and> initial (vbp_set_defaults probe_w2_t5) \<le> threshold (vbp_set_defaults probe_w2_t5))"
  by (simp add: set_defaults_threshold set_defaults_window probe_w2_t5_def probe_zero_def)

subsection \<open>The request is written in one call\<close>

lemma start_poke_fields [simp]:
  "probe (vbp_start_poke vt) = probe vt"
  "req_len (vbp_start_poke vt) = req_len vt"
  "backend (vbp_start_poke vt) = backend vt"
  by (simp_all add: vbp_start_poke_def)

lemma start_poke_bit0 [simp]:
  "\<not> bit (err_xmit (vbp_start_poke vt)) 0"
  "\<not> bit (good_xmit (vbp_start_poke vt)) 0"
  "\<not> bit (happy (vbp_start_poke vt)) 0"
  by (simp_all add: vbp_start_poke_def bit_0)

lemma bit0_or_1 [simp]: "bit (w OR 1 :: u64) 0"
  by (simp add: bit_or_iff)

lemma poke_short_write:
  assumes "vbt_open env = Some fam" and "fam \<noteq> AF_UNSPEC"
    and "0 < c_round ((t_start env + timeout (probe vt) - t_conn env) * 1000)"
    and "write_res env \<noteq> req_len vt"
  shows "vbp_poke scan env vt =
     \<lparr> tgt = (let vt1 = (if fam = AF_INET then vt \<lparr> good_ipv4 := good_ipv4 vt OR 1 \<rparr>
                       else vt \<lparr> good_ipv6 := good_ipv6 vt OR 1 \<rparr>)
              in if write_res env < 0 then vt1 \<lparr> err_xmit := err_xmit vt1 OR 1 \<rparr> else vt1),
       exit_at = Xmit_fail, sock_open = False \<rparr>"
  using assms by (simp add: vbp_poke_def Let_def)

lemma poke_full_write:
  assumes "vbt_open env = Some fam" and "fam \<noteq> AF_UNSPEC"
    and "0 < c_round ((t_start env + timeout (probe vt) - t_conn env) * 1000)"
    and "write_res env = req_len vt"
  shows "good_xmit (tgt (vbp_poke scan env vt)) = good_xmit vt OR 1"
    and "err_xmit (tgt (vbp_poke scan env vt)) = err_xmit vt"
  using assms
  by (simp_all add: vbp_poke_def Let_def split: rd_result.split)

text \<open>
  C4, as the code has it. Once the socket is open and time is left, the newest bit of
  \<open>good_xmit\<close> is set exactly when \<open>write\<close> returned \<open>req_len\<close>, and the newest bit of
  \<open>err_xmit\<close> exactly when \<open>write\<close> failed with a negative return; when \<open>write\<close> returned
  anything but \<open>req_len\<close>, vbp\_poke closes the socket and returns. A short write with a
  non-negative return sets neither bit.
\<close>

theorem poke_write_failure:
  assumes "vbt_open env = Some fam" and "fam \<noteq> AF_UNSPEC"
    and "0 < c_round ((t_start env + timeout (probe vt) - t_conn env) * 1000)"
  shows "bit (good_xmit (tgt (vbp_poke scan env (vbp_start_poke vt)))) 0
           = (write_res env = req_len vt)
     \<and> bit (err_xmit (tgt (vbp_poke scan env (vbp_start_poke vt)))) 0
           = (write_res env \<noteq> req_len vt \<and> write_res env < 0)
     \<and> (write_res env \<noteq> req_len vt \<longrightarrow>
          exit_at (vbp_poke scan env (vbp_start_poke vt)) = Xmit_fail
          \<and> \<not> sock_open (vbp_poke scan env (vbp_start_poke vt)))"
proof (cases "write_res env = req_len vt")
  case True
  then show ?thesis
    using assms by (simp add: poke_full_write)
next
  case False
  have "vbp_poke scan env (vbp_start_poke vt) =
     \<lparr> tgt = (let vt1 = (if fam = AF_INET
                         then vbp_start_poke vt \<lparr> good_ipv4 := good_ipv4 (vbp_start_poke vt) OR 1 \<rparr>
                         else vbp_start_poke vt \<lparr> good_ipv6 := good_ipv6 (vbp_start_poke vt) OR 1 \<rparr>)
              in if write_res env < 0 then vt1 \<lparr> err_xmit := err_xmit vt1 OR 1 \<rparr> else vt1),
       exit_at = Xmit_fail, sock_open = False \<rparr>"
    using assms False by (intro poke_short_write) simp_all
  then show ?thesis
    using False by (simp add: Let_def)
qed

lemma env_short_write_tmo:
  "c_round ((t_start env_short_write + timeout (probe target_default) - t_conn env_short_write) * 1000) = 2000"
  by (simp add: env_short_write_def target_default_def vbp_build_req_def vbp_set_defaults_def
        probe_zero_def vbp_target_zero_def c_round_def Let_def)

lemma target_default_req_len: "req_len target_default = 37"
  by (simp add: target_default_def vbp_build_req_def vbp_set_defaults_def
        probe_zero_def vbp_target_zero_def Let_def)

theorem poke_write_failure_witness:
  "exit_at (vbp_poke sscanf_http env_short_write (vbp_start_poke target_default)) = Xmit_fail
     \<and> \<not> sock_open (vbp_poke sscanf_http env_short_write (vbp_start_poke target_default))
     \<and> \<not> bit (good_xmit (tgt (vbp_poke sscanf_http env_short_write (vbp_start_poke target_default)))) 0"
proof -
  have h1: "vbt_open env_short_write = Some AF_INET"
    by (simp add: env_short_write_def)
  have h2: "AF_INET \<noteq> AF_UNSPEC"
    by simp
  have h3: "0 < c_round ((t_start env_short_write + timeout (probe target_default)
                           - t_conn env_short_write) * 1000)"
    by (simp only: start_poke_fields env_short_write_tmo)
  have h4: "write_res env_short_write \<noteq> req_len target_default"
    by (simp add: target_default_req_len env_short_write_def)
  from poke_write_failure [OF h1 h2 h3, of sscanf_http] h4 show ?thesis
    by simp
qed

text \<open>A write of 3 of the 37 bytes of the request leaves the newest bit of \<open>err_xmit\<close> clear.\<close>

theorem poke_short_write_no_err_xmit:
  "\<not> bit (err_xmit (tgt (vbp_poke sscanf_http env_short_write (vbp_start_poke target_default)))) 0"
proof -
  have h1: "vbt_open env_short_write = Some AF_INET"
    by (simp add: env_short_write_def)
  have h3: "0 < c_round ((t_start env_short_write + timeout (probe (vbp_start_poke target_default))
                           - t_conn env_short_write) * 1000)"
    by (simp only: start_poke_fields env_short_write_tmo)
  have h4: "write_res env_short_write \<noteq> req_len (vbp_start_poke target_default)"
    by (simp add: target_default_req_len env_short_write_def)
  have w: "\<not> write_res env_short_write < 0"
    by (simp add: env_short_write_def)
  show ?thesis
    by (subst poke_short_write [OF h1 _ h3 h4]) (simp_all add: w Let_def)
qed

subsection \<open>The dispatcher\<close>





subsection \<open>Seeding the history in VBP\_Insert\<close>

lemma start_poke_happy: "happy (vbp_start_poke vt) = push_bit 1 (happy vt)"
  by (simp add: vbp_start_poke_def)

lemma has_poked_backend_None [simp]:
  "(backend (vbp_has_poked now vt) = None) = (backend vt = None)"
  by (simp add: has_poked_backend)

lemma seed_body_happy: "happy (seed_body clk u vt) = push_bit 1 (happy vt) OR 1"
  by (simp add: seed_body_def Let_def start_poke_happy)

lemma seed_body_probe [simp]: "probe (seed_body clk u vt) = probe vt"
  by (simp add: seed_body_def Let_def)

lemma seed_body_backend_None [simp]:
  "(backend (seed_body clk u vt) = None) = (backend vt = None)"
  by (simp add: seed_body_def Let_def)

lemma seed_loop_Suc: "seed_loop clk (Suc n) vt = seed_body clk n (seed_loop clk n vt)"
  by (simp add: seed_loop_def)

lemma seed_loop_probe [simp]: "probe (seed_loop clk n vt) = probe vt"
  by (induction n) (simp_all add: seed_loop_Suc, simp add: seed_loop_def)

lemma seed_loop_backend_None [simp]:
  "(backend (seed_loop clk n vt) = None) = (backend vt = None)"
  by (induction n) (simp_all add: seed_loop_Suc, simp add: seed_loop_def)

lemma seed_loop_happy:
  assumes "happy vt = 0"
  shows "happy (seed_loop clk n vt) = mask n"
proof (induction n)
  case 0
  show ?case using assms by (simp add: seed_loop_def)
next
  case (Suc n)
  show ?case
    by (simp add: seed_loop_Suc seed_body_happy Suc.IH mask_Suc_double push_bit_eq_mult or.commute mult.commute)
qed

lemma build_req_fields [simp]:
  "probe (vbp_build_req hh vt) = probe vt"
  "happy (vbp_build_req hh vt) = happy vt"
  "backend (vbp_build_req hh vt) = backend vt"
  by (simp_all add: vbp_build_req_def Let_def)

lemma Insert_probe: "probe (VBP_Insert clk b p hh) = vbp_set_defaults p"
  by (simp add: VBP_Insert_def Let_def)

lemma Insert_happy:
  "happy (VBP_Insert clk b p hh) = mask (unat (initial (vbp_set_defaults p)))"
  by (simp add: VBP_Insert_def Let_def seed_loop_happy vbp_target_zero_def)

lemma card_below: "card {i. i < m \<and> i < n \<and> i < (k::nat)} = min m (min n k)"
proof -
  have "{i. i < m \<and> i < n \<and> i < k} = {..<min m (min n k)}"
    by auto
  then show ?thesis
    by simp
qed

lemma popcount_low_mask:
  "popcount ((mask n :: u64) AND (push_bit m 1 - 1)) = min m (min n 64)"
  by (simp only: low_mask popcount_take_bit bit_mask_iff) (simp add: card_below min.commute min.left_commute)

lemma count_loop_mask:
  "count_loop w (mask n) 0 = of_nat (min w (min n 64))"
  by (simp only: count_loop_card bit_mask_iff) (simp add: card_below min.commute min.left_commute)

lemma Insert_good:
  "good (VBP_Insert clk b p hh) =
     of_nat (min (unat (window (vbp_set_defaults p))) (min (unat (initial (vbp_set_defaults p))) 64))"
proof -
  have "good (VBP_Insert clk b p hh) =
          count_loop (unat (window (vbp_set_defaults p))) (mask (unat (initial (vbp_set_defaults p)))) 0"
    by (simp add: VBP_Insert_def Let_def has_poked_good seed_loop_happy vbp_target_zero_def)
  then show ?thesis
    by (simp only: count_loop_mask)
qed

lemma Insert_backend:
  "\<exists>b'. backend (VBP_Insert clk b p hh) = Some b'
     \<and> healthy b' = (threshold (vbp_set_defaults p) \<le> good (VBP_Insert clk b p hh))"
proof -
  let ?vt = "seed_loop clk (unat (initial (vbp_set_defaults p)))
               (vbp_build_req hh (vbp_target_zero \<lparr> backend := Some b, probe := vbp_set_defaults p \<rparr>))"
  have I: "VBP_Insert clk b p hh = vbp_has_poked (clk (2 * unat (initial (vbp_set_defaults p)))) ?vt"
    by (simp add: VBP_Insert_def Let_def)
  have "backend ?vt \<noteq> None"
    by simp
  then obtain b0 where b0: "backend ?vt = Some b0"
    by blast
  have "probe ?vt = vbp_set_defaults p"
    by simp
  then show ?thesis
    unfolding I by (simp add: has_poked_backend b0 health_healthy)
qed

lemma le_small_word:
  assumes "m \<le> 64"
  shows "(t \<le> (of_nat m :: u32)) = (unat t \<le> m)"
proof -
  have "unat (of_nat m :: u32) = m"
    using assms by (simp add: unat_of_nat)
  then show ?thesis
    by (simp add: word_le_nat_alt)
qed

text \<open>
  C6, as the code has it. When VBP\_Insert returns, the low \<open>initial + 1\<close> positions of
  \<open>happy\<close> hold \<open>min initial 64\<close> one-bits, \<open>initial\<close> being the value after the
  defaults: exactly \<open>initial\<close> of them when \<open>initial\<close> does not exceed the 64 bits of the
  bitmap.
\<close>

theorem Insert_seeds_initial_ones:
  "popcount (happy (VBP_Insert clk b p hh)
              AND (push_bit (unat (initial (vbp_set_defaults p)) + 1) 1 - 1))
     = min (unat (initial (vbp_set_defaults p))) 64"
  by (simp only: Insert_happy popcount_low_mask)

text \<open>With threshold 65 and initial 65 the bitmap holds 64 ones, not 65.\<close>

theorem Insert_initial_65:
  "popcount (happy (VBP_Insert clock_zero backend_zero probe_t65 None)
              AND (push_bit (unat (initial (vbp_set_defaults probe_t65)) + 1) 1 - 1))
     \<noteq> unat (initial (vbp_set_defaults probe_t65))"
proof -
  have "unat (initial (vbp_set_defaults probe_t65)) = 65"
    by (simp add: set_defaults_initial set_defaults_threshold probe_t65_def probe_zero_def Let_def)
  then show ?thesis
    by (simp only: Insert_happy popcount_low_mask)
qed

text \<open>
  C7, as the code has it. When the value of \<open>initial\<close> after the defaults equals the
  threshold, the backend is healthy when VBP\_Insert returns exactly when the threshold
  exceeds neither the window nor the 64 bits of the bitmap.
\<close>

theorem Insert_initial_eq_threshold:
  assumes "initial (vbp_set_defaults p) = threshold (vbp_set_defaults p)"
  shows "\<exists>b'. backend (VBP_Insert clk b p hh) = Some b'
           \<and> healthy b' = (threshold (vbp_set_defaults p) \<le> window (vbp_set_defaults p)
                             \<and> unat (threshold (vbp_set_defaults p)) \<le> 64)"
proof -
  let ?t = "threshold (vbp_set_defaults p)" and ?w = "window (vbp_set_defaults p)"
  obtain b' where b': "backend (VBP_Insert clk b p hh) = Some b'"
    and h: "healthy b' = (?t \<le> good (VBP_Insert clk b p hh))"
    using Insert_backend by blast
  have "good (VBP_Insert clk b p hh) = of_nat (min (unat ?w) (min (unat ?t) 64))"
    by (simp only: Insert_good assms)
  moreover have "min (unat ?w) (min (unat ?t) 64) \<le> 64"
    by simp
  ultimately have "healthy b' = (unat ?t \<le> min (unat ?w) (min (unat ?t) 64))"
    unfolding h by (simp only: le_small_word)
  then have "healthy b' = (?t \<le> ?w \<and> unat ?t \<le> 64)"
    by (auto simp: word_le_nat_alt)
  with b' show ?thesis
    by blast
qed

theorem Insert_initial_eq_threshold_witness:
  "map_option healthy (backend (VBP_Insert clock_zero backend_zero probe_t3_i3 None)) = Some True"
proof -
  have i: "initial (vbp_set_defaults probe_t3_i3) = 3"
    and t: "threshold (vbp_set_defaults probe_t3_i3) = 3"
    and w: "window (vbp_set_defaults probe_t3_i3) = 8"
    by (simp_all add: set_defaults_initial set_defaults_threshold set_defaults_window
          probe_t3_i3_def probe_zero_def Let_def)
  have e: "initial (vbp_set_defaults probe_t3_i3) = threshold (vbp_set_defaults probe_t3_i3)"
    by (simp only: i t)
  from Insert_initial_eq_threshold [OF e, of clock_zero backend_zero None] show ?thesis
    by (auto simp: t w)
qed

text \<open>With window 2, threshold 3 and initial 3 the backend is sick when VBP\_Insert returns.\<close>

theorem Insert_threshold_above_window_sick:
  "initial (vbp_set_defaults probe_w2_t3) = threshold (vbp_set_defaults probe_w2_t3)
     \<and> map_option healthy (backend (VBP_Insert clock_zero backend_zero probe_w2_t3 None)) = Some False"
proof -
  have i: "initial (vbp_set_defaults probe_w2_t3) = 3"
    and t: "threshold (vbp_set_defaults probe_w2_t3) = 3"
    and w: "window (vbp_set_defaults probe_w2_t3) = 2"
    by (simp_all add: set_defaults_initial set_defaults_threshold set_defaults_window
          probe_w2_t3_def probe_zero_def Let_def)
  obtain b' where b': "backend (VBP_Insert clock_zero backend_zero probe_w2_t3 None) = Some b'"
    and h: "healthy b' = (threshold (vbp_set_defaults probe_w2_t3)
                            \<le> good (VBP_Insert clock_zero backend_zero probe_w2_t3 None))"
    using Insert_backend by blast
  have "good (VBP_Insert clock_zero backend_zero probe_w2_t3 None) = 2"
    by (simp only: Insert_good i w) simp
  then have "\<not> healthy b'"
    unfolding h t by simp
  with b' i t show ?thesis
    by simp
qed

subsection \<open>Cutting the response line\<close>

lemma cut_at_Cons:
  "cut_at c (x # xs) =
     (if x = c then NUL # xs else if x = NUL then x # xs else x # cut_at c xs)"
  by (simp add: cut_at_def split: option.split)

lemma cut_at_Nil [simp]: "cut_at c [] = []"
  by (simp add: cut_at_def)

lemma length_cut_at [simp]: "length (cut_at c b) = length b"
  by (simp add: cut_at_def split: option.split)

lemma c_str_cut_at: "c_str (cut_at c b) = takeWhile (\<lambda>x. x \<noteq> c \<and> x \<noteq> NUL) b"
  by (induction b) (simp_all add: cut_at_Cons c_str_def)

lemma takeWhile_cut_at:
  "takeWhile (\<lambda>x. x \<noteq> d \<and> x \<noteq> NUL) (cut_at c b) =
     takeWhile (\<lambda>x. x \<noteq> c \<and> x \<noteq> d \<and> x \<noteq> NUL) b"
  by (induction b) (auto simp: cut_at_Cons)

lemma takeWhile_update:
  assumes "\<not> P z"
  shows "takeWhile P (b[k := z]) = takeWhile P (take k b)"
proof (induction b arbitrary: k)
  case Nil
  show ?case by simp
next
  case (Cons x xs)
  show ?case
    using assms by (cases k) (simp_all add: Cons.IH)
qed

lemma c_str_cut_line: "c_str (vbp_cut_line b) = status_line b"
  unfolding vbp_cut_line_def status_line_def c_str_cut_at takeWhile_cut_at
  by (rule takeWhile_update) simp

lemma length_cut_line [simp]: "length (vbp_cut_line b) = length b"
  by (simp add: vbp_cut_line_def)

lemma status_line_length: "length (status_line b) \<le> 127"
proof -
  have "length (status_line b) \<le> length (take 127 b)"
    unfolding status_line_def by (rule length_takeWhile_le)
  then show ?thesis
    by simp
qed

subsection \<open>The classification of a response\<close>

lemma poke_parsed:
  assumes "vbt_open env = Some fam" and "fam \<noteq> AF_UNSPEC"
    and "0 < c_round ((t_start env + timeout (probe vt) - t_conn env) * 1000)"
    and "write_res env = req_len vt"
    and "vbp_read_loop (c_round ((t_start env + timeout (probe vt) - t_conn env) * 1000))
           (events env) (peer_data env) 0 (resp_buf vt) = Rd_done i rlen b"
    and "0 \<le> i" and "rlen \<noteq> 0"
  shows "exit_at (vbp_poke scan env vt) = Parsed"
    and "resp_buf (tgt (vbp_poke scan env vt)) = vbp_cut_line b"
    and "happy (tgt (vbp_poke scan env vt)) =
           (if (fst (scan (status_line b)) = 1 \<or> fst (scan (status_line b)) = 2)
               \<and> snd (scan (status_line b)) = exp_status (probe vt)
            then happy vt OR 1 else happy vt)"
  using assms by (simp_all add: vbp_poke_def Let_def c_str_cut_line)


lemma start_poke_resp_buf: "resp_buf (vbp_start_poke vt) = (resp_buf vt)[0 := NUL]"
  by (simp add: vbp_start_poke_def)

text \<open>
  The parse as it works on the buffer: when the read loop ended at the end of the data with
  \<open>rlen\<close> not 0, the newest bit of \<open>happy\<close> is set exactly when \<open>sscanf\<close>, run on the
  content of the response buffer cut at the first CR or LF and NUL-terminated, returns 1 or
  2 and the status it stored equals \<open>exp_status\<close>. The buffer \<open>b\<close> is what the read loop
  left, which need not be the response received.
\<close>

lemma poke_happy_iff_buffer_line:
  assumes "vbt_open env = Some fam" and "fam \<noteq> AF_UNSPEC"
    and "0 < c_round ((t_start env + timeout (probe vt) - t_conn env) * 1000)"
    and "write_res env = req_len vt"
    and "vbp_read_loop (c_round ((t_start env + timeout (probe vt) - t_conn env) * 1000))
           (events env) (peer_data env) 0 (resp_buf (vbp_start_poke vt)) = Rd_done i rlen b"
    and "0 \<le> i" and "rlen \<noteq> 0"
  shows "bit (happy (tgt (vbp_poke scan env (vbp_start_poke vt)))) 0 =
           ((fst (scan (status_line b)) = 1 \<or> fst (scan (status_line b)) = 2)
            \<and> snd (scan (status_line b)) = exp_status (probe vt))"
proof -
  have "happy (tgt (vbp_poke scan env (vbp_start_poke vt))) =
           (if (fst (scan (status_line b)) = 1 \<or> fst (scan (status_line b)) = 2)
               \<and> snd (scan (status_line b)) = exp_status (probe (vbp_start_poke vt))
            then happy (vbp_start_poke vt) OR 1 else happy (vbp_start_poke vt))"
    using assms by (intro poke_parsed) simp_all
  then show ?thesis
    by simp
qed

lemma target_default_fields:
  "timeout (probe target_default) = 2"
  "exp_status (probe target_default) = 200"
  "resp_buf target_default = replicate 128 NUL"
  "happy target_default = 0"
  by (simp_all add: target_default_def vbp_build_req_def vbp_set_defaults_def
        probe_zero_def vbp_target_zero_def Let_def)

lemma c_round_2000: "c_round ((0 + 2 - 0) * 1000) = 2000"
  by (simp add: c_round_def)

lemma scan_200_OK: "sscanf_http ''HTTP/1.1 200 OK'' = (2, 200)"
  by (simp add: sscanf_http_def is_space_def is_digit_def is_sign_def dec_val_def CR_def LF_def
        Let_def)

lemma read_loop_env_200:
  "vbp_read_loop 2000 (events env_200) (peer_data env_200) 0 ((replicate 128 NUL)[0 := NUL]) =
     Rd_done 0 19 (''HTTP/1.1 200 OK'' @ [CR, LF, CR, LF] @ replicate 109 NUL)"
  by (simp add: env_200_def buf_write_def Let_def)


lemma poke_env_200_happy:
  "bit (happy (tgt (vbp_poke sscanf_http env_200 (vbp_start_poke target_default)))) 0"
proof -
  have h1: "vbt_open env_200 = Some AF_INET"
    by (simp add: env_200_def)
  have h2: "AF_INET \<noteq> AF_UNSPEC"
    by simp
  have tmo: "c_round ((t_start env_200 + timeout (probe target_default) - t_conn env_200) * 1000)
               = 2000"
    by (simp add: target_default_fields env_200_def c_round_def)
  have h3: "0 < c_round ((t_start env_200 + timeout (probe target_default) - t_conn env_200) * 1000)"
    by (simp only: tmo)
  have h4: "write_res env_200 = req_len target_default"
    by (simp add: target_default_req_len env_200_def)
  have h5: "vbp_read_loop
              (c_round ((t_start env_200 + timeout (probe target_default) - t_conn env_200) * 1000))
              (events env_200) (peer_data env_200) 0 (resp_buf (vbp_start_poke target_default))
            = Rd_done 0 19 (''HTTP/1.1 200 OK'' @ [CR, LF, CR, LF] @ replicate 109 NUL)"
    by (simp only: tmo) (simp only: start_poke_resp_buf target_default_fields read_loop_env_200)
  have h6: "(0::int) \<le> 0" and h7: "(19::u32) \<noteq> 0"
    by simp_all
  have line: "status_line (''HTTP/1.1 200 OK'' @ [CR, LF, CR, LF] @ replicate 109 NUL)
                = ''HTTP/1.1 200 OK''"
    by (simp add: status_line_def CR_def LF_def NUL_def)
  from poke_happy_iff_buffer_line [OF h1 h2 h3 h4 h5 h6 h7, of sscanf_http,
      unfolded line scan_200_OK target_default_fields]
  show ?thesis
    by simp
qed

text \<open>
  On every return path: the newest bit of \<open>happy\<close> is set exactly when vbp\_poke got as far
  as the status line and the status line was accepted.
\<close>

lemma poke_happy:
  "happy (tgt (vbp_poke scan env vt)) =
     (let b = rd_buf (vbp_read_loop (c_round ((t_start env + timeout (probe vt) - t_conn env) * 1000))
                        (events env) (peer_data env) 0 (resp_buf vt));
          r = scan (status_line b)
      in if exit_at (vbp_poke scan env vt) = Parsed
            \<and> (fst r = 1 \<or> fst r = 2) \<and> snd r = exp_status (probe vt)
         then happy vt OR 1 else happy vt)"
  by (simp add: vbp_poke_def Let_def rd_buf_def c_str_cut_line
        split: option.split rd_result.split)

lemma poke_happy_on_every_path:
  "bit (happy (tgt (vbp_poke scan env (vbp_start_poke vt)))) 0 =
     (let b = rd_buf (vbp_read_loop (c_round ((t_start env + timeout (probe vt) - t_conn env) * 1000))
                        (events env) (peer_data env) 0 (resp_buf (vbp_start_poke vt)));
          r = scan (status_line b)
      in exit_at (vbp_poke scan env (vbp_start_poke vt)) = Parsed
           \<and> (fst r = 1 \<or> fst r = 2) \<and> snd r = exp_status (probe vt))"
  by (subst poke_happy) (simp add: Let_def)

subsection \<open>The response buffer is never overrun\<close>

lemma length_buf_write:
  assumes "off + length xs \<le> length b"
  shows "length (buf_write b off xs) = length b"
  using assms by (simp add: buf_write_def)

lemma read_loop_buf_length:
  assumes "length buf = 128"
  shows "length (rd_buf (vbp_read_loop tmo es data rlen buf)) = 128"
  using assms
proof (induction es arbitrary: data rlen buf)
  case Nil
  then show ?case by (simp add: rd_buf_def)
next
  case (Cons e es)
  show ?case
  proof (cases e)
    case Poll_timeout
    then show ?thesis using Cons.prems by (simp add: rd_buf_def)
  next
    case Read_error
    then show ?thesis using Cons.prems by (simp add: rd_buf_def)
  next
    case (Read_avail n)
    let ?got = "take (min n (128 - unat rlen)) data"
    have w: "rlen < 128 \<Longrightarrow> length (buf_write buf (unat rlen) ?got) = 128"
    proof -
      assume "rlen < 128"
      then have "unat rlen < 128"
        by (simp add: word_less_nat_alt)
      then have "unat rlen + length ?got \<le> length buf"
        using Cons.prems by simp
      then show ?thesis
        using Cons.prems by (simp add: length_buf_write)
    qed
    show ?thesis
      using Read_avail Cons.prems w by (simp add: Let_def Cons.IH) (simp add: rd_buf_def)
  qed
qed

lemma poke_resp_buf_length:
  assumes "length (resp_buf vt) = 128"
  shows "length (resp_buf (tgt (vbp_poke scan env vt))) = 128"
proof -
  let ?tmo = "c_round ((t_start env + timeout (probe vt) - t_conn env) * 1000)"
  let ?L = "vbp_read_loop ?tmo (events env) (peer_data env) 0 (resp_buf vt)"
  have "length (rd_buf ?L) = 128"
    using assms by (rule read_loop_buf_length)
  then show ?thesis
    using assms
    by (cases ?L) (simp_all add: vbp_poke_def Let_def rd_buf_def split: option.split)
qed

text \<open>The string handed to \<open>sscanf\<close> has at most 127 characters.\<close>

lemma scanned_string_length: "length (c_str (vbp_cut_line b)) \<le> 127"
  by (simp only: c_str_cut_line status_line_length)

subsection \<open>Bytes of an earlier response take part in the classification\<close>

text \<open>
  The response buffer is terminated at index 127 only, not where the received bytes end.
  After a probe that received \<open>HTTP/1.1 200 OK\<close>, a response that consists of the single
  byte \<open>H\<close> is classified happy: \<open>sscanf\<close> reads the \<open>H\<close> followed by what the
  earlier response left in the buffer. The same response on a fresh target is not happy.
\<close>

lemma task_stale_response_happy:
  "bit (happy (vbp_task sscanf_http env_H 0 (vbp_task sscanf_http env_200 0 target_default))) 0
     \<and> \<not> bit (happy (vbp_task sscanf_http env_H 0 target_default)) 0"
  by code_simp

subsection \<open>The byte counter wraps\<close>

lemma read_into_resp:
  assumes "0 < tmo" and "rlen < 128" and "got = take (min n (128 - unat rlen)) data"
    and "got \<noteq> []"
  shows "vbp_read_loop tmo (Read_avail n # es) data rlen buf =
           vbp_read_loop tmo es (drop (length got) data) (rlen + of_nat (length got))
             (buf_write buf (unat rlen) got)"
  using assms by (auto simp: Let_def)

lemma read_into_scratch:
  assumes "0 < tmo" and "\<not> rlen < 128" and "got = take (min n 8192) data" and "got \<noteq> []"
  shows "vbp_read_loop tmo (Read_avail n # es) data rlen buf =
           vbp_read_loop tmo es (drop (length got) data) (rlen + of_nat (length got)) buf"
  using assms by (auto simp: Let_def)

lemma read_at_end:
  assumes "0 < tmo"
  shows "vbp_read_loop tmo (Read_avail n # es) [] rlen buf = Rd_done 0 rlen buf"
  using assms by (simp add: Let_def)

lemma scratch_reads:
  assumes "0 < tmo" and "128 \<le> unat rlen" and "unat rlen + 8192 * k < 2 ^ 32"
  shows "vbp_read_loop tmo (replicate k (Read_avail 8192) @ es)
           (replicate (8192 * k) x @ data) rlen buf =
         vbp_read_loop tmo es data (rlen + of_nat (8192 * k)) buf"
  using assms
proof (induction k arbitrary: rlen)
  case 0
  show ?case by simp
next
  case (Suc k)
  have nlt: "\<not> rlen < 128"
    using Suc.prems(2) by (simp add: word_less_nat_alt)
  have rep: "replicate (8192 * Suc k) x @ data = replicate 8192 x @ replicate (8192 * k) x @ data"
    by (simp add: replicate_add [symmetric])
  have got: "take (min 8192 8192) (replicate (8192 * Suc k) x @ data) = replicate 8192 x"
    unfolding rep by simp
  have u: "unat (rlen + 8192) = unat rlen + 8192"
    using Suc.prems(3) by (simp add: unat_word_ariths)
  have step: "vbp_read_loop tmo (Read_avail 8192 # replicate k (Read_avail 8192) @ es)
                (replicate (8192 * Suc k) x @ data) rlen buf =
              vbp_read_loop tmo (replicate k (Read_avail 8192) @ es)
                (replicate (8192 * k) x @ data) (rlen + 8192) buf"
    by (subst read_into_scratch [OF Suc.prems(1) nlt got [symmetric]])
       (simp_all add: rep)
  have "vbp_read_loop tmo (replicate k (Read_avail 8192) @ es)
          (replicate (8192 * k) x @ data) (rlen + 8192) buf =
        vbp_read_loop tmo es data (rlen + 8192 + of_nat (8192 * k)) buf"
    using Suc.prems by (intro Suc.IH) (simp_all add: u)
  then show ?case
    using step by (simp add: add.assoc add.commute)
qed

lemma length_resp_128: "length resp_128 = 128"
  by (simp add: resp_128_def)

lemma read_loop_env_4G:
  "vbp_read_loop 2000 (events env_4G) (peer_data env_4G) 0 buf =
     Rd_done 0 17 (buf_write (buf_write buf 0 resp_128) 0 (''HTTP/1.1 200 OK'' @ [CR, LF]))"
proof -
  let ?x = "CHR ''x''"
  let ?tail = "''HTTP/1.1 200 OK'' @ [CR, LF]"
  let ?pad = "replicate 8064 ?x @ ?tail"
  let ?es3 = "[Read_avail 8064, Read_avail 128, Read_avail 128]"
  have tmo: "(0::int) < 2000"
    by simp
  have s1: "vbp_read_loop 2000
              (Read_avail 128 # replicate 524287 (Read_avail 8192) @ ?es3)
              (resp_128 @ replicate (8192 * 524287) ?x @ ?pad) 0 buf =
            vbp_read_loop 2000 (replicate 524287 (Read_avail 8192) @ ?es3)
              (replicate (8192 * 524287) ?x @ ?pad) 128 (buf_write buf 0 resp_128)"
    by (subst read_into_resp [OF tmo, where got = resp_128])
       (simp_all add: length_resp_128, simp add: resp_128_def)
  have s2: "vbp_read_loop 2000 (replicate 524287 (Read_avail 8192) @ ?es3)
              (replicate (8192 * 524287) ?x @ ?pad) 128 (buf_write buf 0 resp_128) =
            vbp_read_loop 2000 ?es3 ?pad (128 + of_nat (8192 * 524287)) (buf_write buf 0 resp_128)"
    by (rule scratch_reads) simp_all
  have r: "(128 + of_nat (8192 * 524287) :: u32) = 4294959232"
    by simp
  have s3: "vbp_read_loop 2000 ?es3 ?pad 4294959232 (buf_write buf 0 resp_128) =
            vbp_read_loop 2000 [Read_avail 128, Read_avail 128] ?tail 0 (buf_write buf 0 resp_128)"
    by (subst read_into_scratch [OF tmo, where got = "replicate 8064 ?x"]) simp_all
  have s4: "vbp_read_loop 2000 [Read_avail 128, Read_avail 128] ?tail 0 (buf_write buf 0 resp_128) =
            vbp_read_loop 2000 [Read_avail 128] [] 17
              (buf_write (buf_write buf 0 resp_128) 0 ?tail)"
    by (subst read_into_resp [OF tmo, where got = ?tail]) simp_all
  have s5: "vbp_read_loop 2000 [Read_avail 128] [] 17
              (buf_write (buf_write buf 0 resp_128) 0 ?tail) =
            Rd_done 0 17 (buf_write (buf_write buf 0 resp_128) 0 ?tail)"
    by (rule read_at_end) simp
  have "vbp_read_loop 2000 (events env_4G) (peer_data env_4G) 0 buf =
        vbp_read_loop 2000
              (Read_avail 128 # replicate 524287 (Read_avail 8192) @ ?es3)
              (resp_128 @ replicate (8192 * 524287) ?x @ ?pad) 0 buf"
    by (simp add: env_4G_def)
  then show ?thesis
    by (simp only: s1 s2 r s3 s4 s5)
qed

lemma status_line_4G:
  "status_line (buf_write (buf_write ((replicate 128 NUL)[0 := NUL]) 0 resp_128) 0
                  (''HTTP/1.1 200 OK'' @ [CR, LF])) = ''HTTP/1.1 200 OK''"
  by code_simp

lemma poke_env_4G_happy:
  "bit (happy (tgt (vbp_poke sscanf_http env_4G (vbp_start_poke target_default)))) 0"
proof -
  let ?vt = "vbp_start_poke target_default"
  let ?b = "buf_write (buf_write ((replicate 128 NUL)[0 := NUL]) 0 resp_128) 0
              (''HTTP/1.1 200 OK'' @ [CR, LF])"
  have h1: "vbt_open env_4G = Some AF_INET"
    by (simp add: env_4G_def)
  have h2: "AF_INET \<noteq> AF_UNSPEC"
    by simp
  have tmo: "c_round ((t_start env_4G + timeout (probe ?vt) - t_conn env_4G) * 1000) = 2000"
    by (simp add: target_default_fields env_4G_def c_round_def)
  have h3: "0 < c_round ((t_start env_4G + timeout (probe ?vt) - t_conn env_4G) * 1000)"
    by (simp only: tmo)
  have h4: "write_res env_4G = req_len ?vt"
    by (simp add: target_default_req_len env_4G_def)
  have h5: "vbp_read_loop (c_round ((t_start env_4G + timeout (probe ?vt) - t_conn env_4G) * 1000))
              (events env_4G) (peer_data env_4G) 0 (resp_buf ?vt) = Rd_done 0 17 ?b"
    by (simp only: tmo) (simp only: start_poke_resp_buf target_default_fields read_loop_env_4G)
  have h6: "(0::int) \<le> 0" and h7: "(17::u32) \<noteq> 0"
    by simp_all
  have "happy (tgt (vbp_poke sscanf_http env_4G ?vt)) = happy ?vt OR 1"
    by (simp only: poke_parsed(3) [OF h1 h2 h3 h4 h5 h6 h7] status_line_4G scan_200_OK)
       (simp add: target_default_fields)
  then show ?thesis
    by simp
qed

text \<open>
  The same defect at \<open>2 ^ 32\<close> received bytes: \<open>rlen\<close> is \<open>unsigned\<close> and wraps to 0, the
  next read stores into the response buffer again, and the bytes that follow the first
  \<open>2 ^ 32\<close> decide the classification. The two responses agree on their first 128 bytes.
\<close>

lemma task_wrapped_response_happy:
  "bit (happy (vbp_task sscanf_http env_4G 0 target_default)) 0
     \<and> \<not> bit (happy (vbp_task sscanf_http env_128 0 target_default)) 0
     \<and> take 128 (peer_data env_4G) = take 128 (peer_data env_128)"
proof -
  have "\<not> bit (happy (vbp_task sscanf_http env_128 0 target_default)) 0"
    by code_simp
  moreover have "take 128 (peer_data env_4G) = take 128 (peer_data env_128)"
    by (simp add: env_4G_def env_128_def length_resp_128)
  ultimately show ?thesis
    by (simp add: vbp_task_def poke_env_4G_happy)
qed

text \<open>
  C10. The reads never overrun the 128-byte response buffer and the string handed to
  \<open>sscanf\<close> is NUL-terminated within it (lemmas \<open>read_loop_buf_length\<close>,
  \<open>poke_resp_buf_length\<close> and \<open>scanned_string_length\<close>). The classification, however,
  is not decided by the first 127 bytes of the response alone: two responses with the same
  first 128 bytes are classified differently when one of them is longer than \<open>2 ^ 32\<close>
  bytes, and a response of the single byte \<open>H\<close> is happy after a probe that received
  \<open>HTTP/1.1 200 OK\<close> and not happy on a fresh target.
\<close>

theorem classification_not_by_first_127_bytes:
  "(bit (happy (vbp_task sscanf_http env_4G 0 target_default)) 0
      \<and> \<not> bit (happy (vbp_task sscanf_http env_128 0 target_default)) 0
      \<and> take 128 (peer_data env_4G) = take 128 (peer_data env_128))
   \<and> (bit (happy (vbp_task sscanf_http env_H 0 (vbp_task sscanf_http env_200 0 target_default))) 0
      \<and> \<not> bit (happy (vbp_task sscanf_http env_H 0 target_default)) 0)"
  using task_wrapped_response_happy task_stale_response_happy by blast

subsection \<open>The received status line and the classification\<close>

lemma length_resp_ok_128: "length resp_ok_128 = 128"
  by (simp add: resp_ok_128_def)

lemma read_loop_env_4G_ok:
  "vbp_read_loop 2000 (events env_4G_ok) (peer_data env_4G_ok) 0 buf =
     Rd_done 0 0 (buf_write buf 0 resp_ok_128)"
proof -
  let ?x = "CHR ''x''"
  let ?pad = "replicate 8064 ?x"
  let ?es3 = "[Read_avail 8064, Read_avail 128]"
  have tmo: "(0::int) < 2000"
    by simp
  have s1: "vbp_read_loop 2000
              (Read_avail 128 # replicate 524287 (Read_avail 8192) @ ?es3)
              (resp_ok_128 @ replicate (8192 * 524287) ?x @ ?pad @ []) 0 buf =
            vbp_read_loop 2000 (replicate 524287 (Read_avail 8192) @ ?es3)
              (replicate (8192 * 524287) ?x @ ?pad @ []) 128 (buf_write buf 0 resp_ok_128)"
    by (subst read_into_resp [OF tmo, where got = resp_ok_128])
       (simp_all add: length_resp_ok_128, simp add: resp_ok_128_def)
  have s2: "vbp_read_loop 2000 (replicate 524287 (Read_avail 8192) @ ?es3)
              (replicate (8192 * 524287) ?x @ ?pad @ []) 128 (buf_write buf 0 resp_ok_128) =
            vbp_read_loop 2000 ?es3 (?pad @ []) (128 + of_nat (8192 * 524287))
              (buf_write buf 0 resp_ok_128)"
    by (rule scratch_reads) simp_all
  have r: "(128 + of_nat (8192 * 524287) :: u32) = 4294959232"
    by simp
  have s3: "vbp_read_loop 2000 ?es3 (?pad @ []) 4294959232 (buf_write buf 0 resp_ok_128) =
            vbp_read_loop 2000 [Read_avail 128] [] 0 (buf_write buf 0 resp_ok_128)"
    by (subst read_into_scratch [OF tmo, where got = "replicate 8064 ?x"]) simp_all
  have s4: "vbp_read_loop 2000 [Read_avail 128] [] 0 (buf_write buf 0 resp_ok_128) =
            Rd_done 0 0 (buf_write buf 0 resp_ok_128)"
    by (rule read_at_end) simp
  have "vbp_read_loop 2000 (events env_4G_ok) (peer_data env_4G_ok) 0 buf =
        vbp_read_loop 2000
              (Read_avail 128 # replicate 524287 (Read_avail 8192) @ ?es3)
              (resp_ok_128 @ replicate (8192 * 524287) ?x @ ?pad @ []) 0 buf"
    by (simp add: env_4G_ok_def)
  then show ?thesis
    by (simp only: s1 s2 r s3 s4)
qed

lemma poke_empty:
  assumes "vbt_open env = Some fam" and "fam \<noteq> AF_UNSPEC"
    and "0 < c_round ((t_start env + timeout (probe vt) - t_conn env) * 1000)"
    and "write_res env = req_len vt"
    and "vbp_read_loop (c_round ((t_start env + timeout (probe vt) - t_conn env) * 1000))
           (events env) (peer_data env) 0 (resp_buf vt) = Rd_done i 0 b"
    and "0 \<le> i"
  shows "exit_at (vbp_poke scan env vt) = Recv_empty"
    and "happy (tgt (vbp_poke scan env vt)) = happy vt"
    and "good_recv (tgt (vbp_poke scan env vt)) = good_recv vt"
  using assms by (simp_all add: vbp_poke_def Let_def)

lemma poke_env_4G_ok:
  "exit_at (vbp_poke sscanf_http env_4G_ok (vbp_start_poke target_default)) = Recv_empty
     \<and> \<not> bit (happy (tgt (vbp_poke sscanf_http env_4G_ok (vbp_start_poke target_default)))) 0"
proof -
  let ?vt = "vbp_start_poke target_default"
  have h1: "vbt_open env_4G_ok = Some AF_INET"
    by (simp add: env_4G_ok_def)
  have h2: "AF_INET \<noteq> AF_UNSPEC"
    by simp
  have tmo: "c_round ((t_start env_4G_ok + timeout (probe ?vt) - t_conn env_4G_ok) * 1000) = 2000"
    by (simp add: target_default_fields env_4G_ok_def c_round_def)
  have h3: "0 < c_round ((t_start env_4G_ok + timeout (probe ?vt) - t_conn env_4G_ok) * 1000)"
    by (simp only: tmo)
  have h4: "write_res env_4G_ok = req_len ?vt"
    by (simp add: target_default_req_len env_4G_ok_def)
  have h5: "vbp_read_loop (c_round ((t_start env_4G_ok + timeout (probe ?vt) - t_conn env_4G_ok) * 1000))
              (events env_4G_ok) (peer_data env_4G_ok) 0 (resp_buf ?vt)
            = Rd_done 0 0 (buf_write (resp_buf ?vt) 0 resp_ok_128)"
    by (simp only: tmo read_loop_env_4G_ok)
  have h6: "(0::int) \<le> 0"
    by simp
  show ?thesis
    by (simp add: poke_empty [OF h1 h2 h3 h4 h5 h6])
qed

lemma received_line_env_4G_ok: "status_line (peer_data env_4G_ok) = ''HTTP/1.1 200 OK''"
proof -
  have "take 127 (peer_data env_4G_ok) = take 127 resp_ok_128"
    by (simp add: env_4G_ok_def length_resp_ok_128)
  then have "status_line (peer_data env_4G_ok) = status_line resp_ok_128"
    by (simp add: status_line_def)
  also have "\<dots> = ''HTTP/1.1 200 OK''"
    by code_simp
  finally show ?thesis .
qed

lemma received_line_env_H: "sscanf_http (status_line (peer_data env_H)) = (- 1, 0)"
  by code_simp

text \<open>
  C8. The newest bit of \<open>happy\<close> does not follow the status line of the response received.
  A response that consists of the single byte \<open>H\<close>, on which \<open>sscanf\<close> assigns nothing,
  is classified happy after a probe that received \<open>HTTP/1.1 200 OK\<close>; and a response of
  \<open>2 ^ 32\<close> bytes whose status line is \<open>HTTP/1.1 200 OK\<close>, with the expected status 200,
  is not classified happy, because the byte counter has wrapped to 0.
\<close>

theorem happy_not_by_received_status_line:
  "(sscanf_http (status_line (peer_data env_H)) = (- 1, 0)
      \<and> bit (happy (vbp_task sscanf_http env_H 0 (vbp_task sscanf_http env_200 0 target_default))) 0)
   \<and> (sscanf_http (status_line (peer_data env_4G_ok)) = (2, 200)
      \<and> exp_status (probe target_default) = 200
      \<and> exit_at (vbp_poke sscanf_http env_4G_ok (vbp_start_poke target_default)) = Recv_empty
      \<and> \<not> bit (happy (vbp_task sscanf_http env_4G_ok 0 target_default)) 0)"
proof -
  have "bit (happy (vbp_task sscanf_http env_H 0 (vbp_task sscanf_http env_200 0 target_default))) 0"
    by code_simp
  moreover have "\<not> bit (happy (vbp_task sscanf_http env_4G_ok 0 target_default)) 0"
    using poke_env_4G_ok by (simp add: vbp_task_def)
  ultimately show ?thesis
    using poke_env_4G_ok
    by (simp add: received_line_env_H received_line_env_4G_ok scan_200_OK target_default_fields)
qed

end
